theory Spec2Isabelle
  imports Main "HOL-Library.Sublist" "HOL-Library.List_Lexorder" "HOL-Library.Char_ord"
begin

section \<open>Weather station: satellite download loop, sky camera loop, offline cache\<close>

text \<open>
  The repository holds two bash loops and a browser service worker:
  \<^item> the satellite loop computes a \<open>YYYYMMDDHHMM\<close> timestamp from the UTC clock,
    downloads one tile with \<open>curl\<close> to a fixed path and sleeps 900 seconds;
  \<^item> the camera loop captures a frame when the UTC hour lies in the window,
    prunes the image directory to 30 non-THUNDER images and sleeps 300 seconds;
  \<^item> the service worker fills a cache at install time and answers fetch events
    from it.
  Each is embedded below as executable HOL functions. External programs
  (\<open>date\<close>, \<open>curl\<close>, \<open>libcamera-still\<close>, the network) are inputs of the model: their
  results are arguments of the cycle functions. The tools of the retention pipeline
  (\<open>ls\<close>, \<open>grep\<close>, \<open>tail\<close>, \<open>xargs\<close>, \<open>rm\<close>) are modelled on the text they exchange.
\<close>

subsection \<open>Clock readings and \<open>date\<close> formatting\<close>

text \<open>
  One reading of the wall clock. The scripts call \<open>date\<close> once per field; the model
  takes all fields of a cycle from one reading.
\<close>

record clock =
  year :: nat
  month :: nat
  day :: nat
  hour :: nat
  minute :: nat
  second :: nat

definition digit_char :: "nat \<Rightarrow> char" where
  "digit_char d = ''0123456789'' ! (d mod 10)"

text \<open>Unpadded decimal numeral, as \<open>printf "%d"\<close> prints a non-negative integer.\<close>

fun dec :: "nat \<Rightarrow> string" where
  "dec n = (if n < 10 then [digit_char n] else dec (n div 10) @ [digit_char (n mod 10)])"

declare dec.simps [simp del]

text \<open>\<open>printf "%02d"\<close>, and the two-digit fields \<open>%m %d %H %M %S\<close> of \<open>date\<close>.\<close>

definition printf_02d :: "nat \<Rightarrow> string" where
  "printf_02d n = (if n < 10 then CHR ''0'' # dec n else dec n)"

text \<open>\<open>date +%Y\<close>: at least four digits.\<close>

definition date_Y :: "nat \<Rightarrow> string" where
  "date_Y n = replicate (4 - length (dec n)) CHR ''0'' @ dec n"

subsection \<open>Shell integers\<close>

datatype shell_error = ArithBase string

definition digit_val :: "char \<Rightarrow> nat option" where
  "digit_val c = (let k = (of_char c :: nat) in if 48 \<le> k \<and> k < 58 then Some (k - 48) else None)"

text \<open>Value of a digit string in the given base; \<open>None\<close> when a character is not a digit of that base.\<close>

fun digits_in_base :: "nat \<Rightarrow> nat \<Rightarrow> string \<Rightarrow> nat option" where
  "digits_in_base b acc [] = Some acc"
| "digits_in_base b acc (c # cs) =
     (case digit_val c of
        None \<Rightarrow> None
      | Some d \<Rightarrow> if d < b then digits_in_base b (acc * b + d) cs else None)"

text \<open>
  An integer constant inside \<open>$(( ))\<close>: bash reads a constant with a leading \<open>0\<close> as
  octal, so the strings \<open>08\<close> and \<open>09\<close> are not numbers (``value too great for
  base''). The failed expansion abandons the command being executed, which for a
  line of a \<open>while\<close> body is the whole loop.
\<close>

definition bash_arith_const :: "string \<Rightarrow> shell_error + nat" where
  "bash_arith_const s =
     (case s of
        [] \<Rightarrow> Inr 0
      | c # cs \<Rightarrow>
          (if c = CHR ''0''
           then (case digits_in_base 8 0 cs of None \<Rightarrow> Inl (ArithBase s) | Some v \<Rightarrow> Inr v)
           else (case digits_in_base 10 0 s of None \<Rightarrow> Inl (ArithBase s) | Some v \<Rightarrow> Inr v)))"

text \<open>
  The operand of \<open>[ a -ge b ]\<close> and \<open>[ a -lt b ]\<close>: \<open>test\<close> reads decimal, leading
  zeros allowed.
\<close>

definition test_int :: "string \<Rightarrow> nat option" where
  "test_int s = (if s = [] then None else digits_in_base 10 0 s)"

subsection \<open>Satellite loop: timestamp of the latest image\<close>

definition CURRENT_YEAR :: "clock \<Rightarrow> string" where
  "CURRENT_YEAR now = date_Y (year now)"

definition CURRENT_MONTH :: "clock \<Rightarrow> string" where
  "CURRENT_MONTH now = printf_02d (month now)"

definition CURRENT_DAY :: "clock \<Rightarrow> string" where
  "CURRENT_DAY now = printf_02d (day now)"

definition CURRENT_HOUR :: "clock \<Rightarrow> string" where
  "CURRENT_HOUR now = printf_02d (hour now)"

definition CURRENT_MINUTE :: "clock \<Rightarrow> string" where
  "CURRENT_MINUTE now = printf_02d (minute now)"

text \<open>\<open>INTERVAL_NUM=$((CURRENT_MINUTE / 65))\<close>\<close>

definition INTERVAL_NUM :: "clock \<Rightarrow> shell_error + nat" where
  "INTERVAL_NUM now =
     (case bash_arith_const (CURRENT_MINUTE now) of
        Inl e \<Rightarrow> Inl e
      | Inr m \<Rightarrow> Inr (m div 65))"

text \<open>\<open>TARGET_MINUTE_NUM=$((INTERVAL_NUM * 65))\<close>\<close>

definition TARGET_MINUTE_NUM :: "clock \<Rightarrow> shell_error + nat" where
  "TARGET_MINUTE_NUM now =
     (case INTERVAL_NUM now of
        Inl e \<Rightarrow> Inl e
      | Inr k \<Rightarrow> Inr (k * 65))"

text \<open>\<open>TARGET_MINUTE=$(printf "%02d" $TARGET_MINUTE_NUM)\<close>\<close>

definition TARGET_MINUTE :: "clock \<Rightarrow> shell_error + string" where
  "TARGET_MINUTE now =
     (case TARGET_MINUTE_NUM now of
        Inl e \<Rightarrow> Inl e
      | Inr t \<Rightarrow> Inr (printf_02d t))"

definition LATEST_TIMESTAMP :: "clock \<Rightarrow> shell_error + string" where
  "LATEST_TIMESTAMP now =
     (case TARGET_MINUTE now of
        Inl e \<Rightarrow> Inl e
      | Inr tm \<Rightarrow>
          Inr (CURRENT_YEAR now @ CURRENT_MONTH now @ CURRENT_DAY now @ CURRENT_HOUR now @ tm))"

definition clock_2024_06_01 :: "nat \<Rightarrow> nat \<Rightarrow> clock" where
  "clock_2024_06_01 h m = \<lparr>year = 2024, month = 6, day = 1, hour = h, minute = m, second = 0\<rparr>"

subsection \<open>Satellite loop: download to the fixed path\<close>

type_synonym bytes = "nat list"

text \<open>The file at one path: \<open>None\<close> when no file exists there.\<close>

type_synonym stored = "bytes option"

definition BASE_URL_PREFIX :: string where
  "BASE_URL_PREFIX = ''https://imn-api.meteoplaza.com/v4/nowcast/tiles/satellite-europe/''"

definition TILE_INFO :: string where
  "TILE_INFO = ''/7/47/70/51/75?outputtype=jpeg''"

definition OUTPUT_DIR :: string where
  "OUTPUT_DIR = ''/home/dimitris/weather_station/satellite_latest''"

definition OUTPUT_FILE :: string where
  "OUTPUT_FILE = ''satellite_greece.jpg''"

definition OUTPUT_PATH :: string where
  "OUTPUT_PATH = OUTPUT_DIR @ ''/'' @ OUTPUT_FILE"

text \<open>
  What one run of \<open>curl -f -L -s -o OUTPUT_PATH url\<close> did: its exit status, and what
  it left in the output file (\<open>None\<close>: the file was not touched, as after an HTTP
  error under \<open>-f\<close>; \<open>Some b\<close>: the file was created or truncated and holds \<open>b\<close>).
  A transfer that succeeds with an empty body is \<open>Curl 0 (Some [])\<close>: curl creates
  the empty output file.
\<close>

datatype curl_result = Curl (exit_status: nat) (written: "bytes option")

text \<open>
  The commands of the loops that act on the world, in the order they run. \<open>Echo\<close>
  carries the message without the date that some messages start with.
\<close>

datatype action =
    Echo string
  | CurlGet string string
  | Rm string
  | LibcameraStill string
  | XargsRm "string list"
  | Sleep nat

record sat_result =
  target :: stored
  trace :: "action list"
  running :: bool

definition CURRENT_IMAGE_URL :: "string \<Rightarrow> string" where
  "CURRENT_IMAGE_URL ts = BASE_URL_PREFIX @ ts @ TILE_INFO"

text \<open>\<open>[ -s path ]\<close>: the file exists and is not empty.\<close>

definition test_s :: "stored \<Rightarrow> bool" where
  "test_s f = (case f of None \<Rightarrow> False | Some b \<Rightarrow> b \<noteq> [])"

text \<open>The file at the output path after curl has run.\<close>

definition after_curl :: "curl_result \<Rightarrow> stored \<Rightarrow> stored" where
  "after_curl r f = (case written r of None \<Rightarrow> f | Some b \<Rightarrow> Some b)"

text \<open>
  Lines 56 to 85 of the loop body, for the timestamp \<open>ts\<close>: the download, the check
  of the exit status and of the file size, and the sleep. In the last message \<open>$?\<close>
  is expanded after \<open>$(date)\<close> of the same \<open>echo\<close> has run, so it is the status of
  \<open>date\<close>, which is 0.
\<close>

definition download_and_wait :: "string \<Rightarrow> curl_result \<Rightarrow> stored \<Rightarrow> sat_result" where
  "download_and_wait ts r f =
     (let url = CURRENT_IMAGE_URL ts;
          before = [Echo ('': Downloading image for timestamp '' @ ts @ ''...''),
                    Echo (''URL: '' @ url),
                    Echo (''Saving to: '' @ OUTPUT_PATH),
                    CurlGet url OUTPUT_PATH];
          wait = [Echo '': Waiting 15 minutes (900 seconds) before the next download... '',
                  Sleep 900];
          f1 = after_curl r f
      in if exit_status r = 0
         then (if test_s f1
               then \<lparr>target = f1,
                     trace = before @ [Echo ('': Download successful for '' @ ts @ ''.'')] @ wait,
                     running = True\<rparr>
               else \<lparr>target = None,
                     trace = before @
                       [Echo ('': Download failed for '' @ ts @
                              '' (empty file received). Image might not be available yet.''),
                        Rm OUTPUT_PATH] @ wait,
                     running = True\<rparr>)
         else \<lparr>target = f1,
               trace = before @
                 [Echo ('': Download failed for '' @ ts @ '' (curl error code '' @ dec 0 @
                        ''). Check URL or network. Retrying in 15 minutes.'')] @ wait,
               running = True\<rparr>)"

text \<open>
  One pass through the body of \<open>while true\<close>. When the timestamp arithmetic fails,
  the shell leaves the loop: nothing after line 46 runs and no later cycle starts.
\<close>

definition satellite_cycle :: "clock \<Rightarrow> curl_result \<Rightarrow> stored \<Rightarrow> sat_result" where
  "satellite_cycle now r f =
     (case LATEST_TIMESTAMP now of
        Inl e \<Rightarrow> \<lparr>target = f, trace = [], running = False\<rparr>
      | Inr ts \<Rightarrow> download_and_wait ts r f)"

text \<open>
  The loop over the readings and curl results of successive cycles: the file left
  at the output path and the actions of all cycles that ran.
\<close>

fun satellite_loop :: "(clock \<times> curl_result) list \<Rightarrow> stored \<Rightarrow> sat_result" where
  "satellite_loop [] f = \<lparr>target = f, trace = [], running = True\<rparr>"
| "satellite_loop ((now, r) # rest) f =
     (let c = satellite_cycle now r f
      in if running c
         then (let l = satellite_loop rest (target c)
               in \<lparr>target = target l, trace = trace c @ trace l, running = running l\<rparr>)
         else c)"

definition curl_attempts :: "action list \<Rightarrow> nat" where
  "curl_attempts as = length (filter (\<lambda>a. case a of CurlGet u p \<Rightarrow> True | _ \<Rightarrow> False) as)"

definition sleeps :: "action list \<Rightarrow> nat list" where
  "sleeps as = concat (map (\<lambda>a. case a of Sleep n \<Rightarrow> [n] | _ \<Rightarrow> []) as)"


definition curl_outputs :: "action list \<Rightarrow> string list" where
  "curl_outputs as = concat (map (\<lambda>a. case a of CurlGet u p \<Rightarrow> [p] | _ \<Rightarrow> []) as)"

subsection \<open>Camera loop: the image directory\<close>

text \<open>
  A file of the image directory: its name inside the directory and its
  modification time, the key of \<open>ls -t\<close>. A directory is the list of its files.
\<close>

record entry =
  fname :: string
  mtime :: nat

type_synonym directory = "entry list"

definition IMG_DIR :: string where
  "IMG_DIR = ''/home/dimitris/weather_station/whole_sky_camera''"

definition path_of :: "entry \<Rightarrow> string" where
  "path_of e = IMG_DIR @ ''/'' @ fname e"

text \<open>
  \<open>"$IMG_DIR"/*.jpg\<close>: the files whose name ends in \<open>.jpg\<close> and does not start with
  a dot, in the order of their names (byte order).
\<close>

definition jpg_name :: "string \<Rightarrow> bool" where
  "jpg_name n = (suffix ''.jpg'' n \<and> \<not> prefix ''.'' n)"

definition glob_jpg :: "directory \<Rightarrow> entry list" where
  "glob_jpg d = sort_key fname (filter (\<lambda>e. jpg_name (fname e)) d)"

text \<open>
  The shell starts \<open>ls\<close> with one argument for every path of the glob. The system
  refuses an argument list that is too long, and \<open>ls\<close> then does not run. What the
  system accepts depends on the machine: \<open>arg_room\<close> is the number of bytes it leaves
  for the file arguments of \<open>ls\<close>, \<open>arg_overhead\<close> the bytes that one argument costs
  beyond its characters.
\<close>

record exec_limits =
  arg_room :: int
  arg_overhead :: nat

definition argument_bytes :: "exec_limits \<Rightarrow> string list \<Rightarrow> nat" where
  "argument_bytes lim args = sum_list (map (\<lambda>a. length a + arg_overhead lim) args)"

definition exec_accepts :: "exec_limits \<Rightarrow> string list \<Rightarrow> bool" where
  "exec_accepts lim args = (int (argument_bytes lim args) \<le> arg_room lim)"

text \<open>\<open>ls -t\<close>: newest first, files of equal time in the order of their names.\<close>

definition ls_t :: "entry list \<Rightarrow> entry list" where
  "ls_t es = sort_key (\<lambda>e. - int (mtime e)) es"

text \<open>
  The characters that the tools of the pipeline treat specially: a newline ends a
  line; \<open>xargs\<close> ends an argument at a newline, a blank or a tab, and reads quotes and
  backslashes as quoting.
\<close>

definition newline :: char where
  "newline = CHR 0x0A"

definition xargs_blank :: "char \<Rightarrow> bool" where
  "xargs_blank c = (c = CHR '' '' \<or> c = CHR 0x09)"

definition xargs_quote :: "char \<Rightarrow> bool" where
  "xargs_quote c = (c = CHR 0x27 \<or> c = CHR 0x22)"

definition backslash :: char where
  "backslash = CHR 0x5C"

text \<open>The lines of a text that is written without its last newline.\<close>

fun add_to_first :: "char \<Rightarrow> string list \<Rightarrow> string list" where
  "add_to_first c [] = [[c]]"
| "add_to_first c (l # ls) = (c # l) # ls"

fun split_lines :: "string \<Rightarrow> string list" where
  "split_lines [] = [[]]"
| "split_lines (c # cs) =
     (if c = newline then [] # split_lines cs else add_to_first c (split_lines cs))"

text \<open>
  The output of \<open>ls -t "$IMG_DIR"/*.jpg 2>/dev/null\<close>, as its lines: \<open>ls\<close> prints each
  path followed by a newline, so a name with a newline in it makes several lines.
  When the argument list is refused, or no file matches, there is no output.
\<close>

definition ls_t_output :: "exec_limits \<Rightarrow> directory \<Rightarrow> string list" where
  "ls_t_output lim d =
     (if exec_accepts lim (map path_of (glob_jpg d))
      then concat (map (\<lambda>e. split_lines (path_of e)) (ls_t (glob_jpg d)))
      else [])"

text \<open>\<open>grep -v pat\<close> for a pattern without special characters: the lines that do not contain it.\<close>

definition grep_v :: "string \<Rightarrow> string list \<Rightarrow> string list" where
  "grep_v pat ls = filter (\<lambda>l. \<not> sublist pat l) ls"

text \<open>\<open>$( )\<close> drops the newlines at the end of the output, that is its trailing empty lines.\<close>

definition command_substitution :: "string list \<Rightarrow> string list" where
  "command_substitution ls = rev (dropWhile (\<lambda>l. l = []) (rev ls))"

text \<open>\<open>NON_THUNDER_IMAGES=$(ls -t "$IMG_DIR"/*.jpg 2>/dev/null | grep -v "/THUNDER")\<close>, as its lines.\<close>

definition NON_THUNDER_IMAGES :: "exec_limits \<Rightarrow> directory \<Rightarrow> string list" where
  "NON_THUNDER_IMAGES lim d = command_substitution (grep_v ''/THUNDER'' (ls_t_output lim d))"

text \<open>\<open>echo "$VAR"\<close> prints one line even when the variable is empty.\<close>

definition echo_lines :: "string list \<Rightarrow> string list" where
  "echo_lines ls = (if ls = [] then [[]] else ls)"

text \<open>\<open>IMAGE_COUNT=$(echo "$NON_THUNDER_IMAGES" | wc -l)\<close>\<close>

definition IMAGE_COUNT :: "exec_limits \<Rightarrow> directory \<Rightarrow> nat" where
  "IMAGE_COUNT lim d = length (echo_lines (NON_THUNDER_IMAGES lim d))"

text \<open>\<open>tail -n +k\<close>: the lines from line \<open>k\<close> on.\<close>

definition tail_from :: "nat \<Rightarrow> string list \<Rightarrow> string list" where
  "tail_from k ls = drop (k - 1) ls"

text \<open>The text of some lines, each ended by a newline.\<close>

definition unlines :: "string list \<Rightarrow> string" where
  "unlines ls = concat (map (\<lambda>l. l @ [newline]) ls)"

text \<open>
  How \<open>xargs\<close> cuts its input into arguments. The state says whether a quote is
  open and which, or whether a backslash has just been read; \<open>cur\<close> is the argument
  being read (\<open>None\<close> between arguments). Blanks, tabs and newlines end an argument;
  a quote opens a quoted part that the same quote closes; a backslash takes the next
  character as it is. A newline or the end of the input inside quotes is an error
  (\<open>None\<close>): \<open>xargs\<close> reports an unmatched quote and stops.
\<close>

datatype xargs_state = Unquoted | Quoted char | Escaped

fun so_far :: "string option \<Rightarrow> string" where
  "so_far None = []"
| "so_far (Some a) = a"

fun end_argument :: "string option \<Rightarrow> string list option \<Rightarrow> string list option" where
  "end_argument None rest = rest"
| "end_argument (Some a) rest = map_option (Cons a) rest"

fun xargs_scan :: "xargs_state \<Rightarrow> string option \<Rightarrow> string \<Rightarrow> string list option" where
  "xargs_scan (Quoted qc) cur [] = None"
| "xargs_scan st cur [] = end_argument cur (Some [])"
| "xargs_scan (Quoted qc) cur (c # cs) =
     (if c = qc then xargs_scan Unquoted cur cs
      else if c = newline then None
      else xargs_scan (Quoted qc) (Some (so_far cur @ [c])) cs)"
| "xargs_scan Escaped cur (c # cs) = xargs_scan Unquoted (Some (so_far cur @ [c])) cs"
| "xargs_scan Unquoted cur (c # cs) =
     (if c = backslash then xargs_scan Escaped (Some (so_far cur)) cs
      else if xargs_quote c then xargs_scan (Quoted c) (Some (so_far cur)) cs
      else if xargs_blank c \<or> c = newline then end_argument cur (xargs_scan Unquoted None cs)
      else xargs_scan Unquoted (Some (so_far cur @ [c])) cs)"

text \<open>The arguments that \<open>xargs\<close> makes of the lines it reads.\<close>

definition xargs_args :: "string list \<Rightarrow> string list option" where
  "xargs_args ls = xargs_scan Unquoted None (unlines ls)"

text \<open>
  \<open>rm -- args\<close>, started in the directory \<open>cwd\<close>: an argument that does not start with
  a slash is a path below \<open>cwd\<close>. The files of the image directory whose path is one
  of the arguments are removed; an argument that names no file removes nothing.
  Paths are compared as they are written.
\<close>

definition resolve :: "string \<Rightarrow> string \<Rightarrow> string" where
  "resolve cwd a = (if prefix ''/'' a then a else cwd @ ''/'' @ a)"

definition rm_files :: "string \<Rightarrow> string list \<Rightarrow> directory \<Rightarrow> directory" where
  "rm_files cwd args d = filter (\<lambda>e. path_of e \<notin> set (map (resolve cwd) args)) d"

text \<open>
  Lines 114 to 119, the retention pass, with the bound as a parameter: the script
  has the bound 30 (\<open>-gt 30\<close>, \<open>tail -n +31\<close>). \<open>lim\<close> and \<open>cwd\<close> are the limits of the
  machine and the directory in which the script was started. The result is the
  directory after the pass and the arguments handed to \<open>rm\<close>; when \<open>xargs\<close> stops at
  an unmatched quote, \<open>rm\<close> is not run.
\<close>

definition enforceRetention ::
  "exec_limits \<Rightarrow> string \<Rightarrow> nat \<Rightarrow> directory \<Rightarrow> directory \<times> string list" where
  "enforceRetention lim cwd maxCount d =
     (if IMAGE_COUNT lim d > maxCount
      then (case xargs_args (tail_from (maxCount + 1) (echo_lines (NON_THUNDER_IMAGES lim d))) of
              None \<Rightarrow> (d, [])
            | Some evicted \<Rightarrow> (rm_files cwd evicted d, evicted))
      else (d, []))"

text \<open>The grep pattern as a predicate on files: the pinned files are those whose path contains it.\<close>

definition pinned :: "entry \<Rightarrow> bool" where
  "pinned e = sublist ''/THUNDER'' (path_of e)"


text \<open>
  File names that pass through the pipeline unchanged: no newline, blank, tab, quote
  or backslash. The names \<open>%d-%m-%Y_%H:%M:%S.jpg\<close> that the loop writes are of this kind.
\<close>

definition plain_name :: "string \<Rightarrow> bool" where
  "plain_name n =
     (\<forall>c \<in> set n. \<not> (c = newline \<or> xargs_blank c \<or> xargs_quote c \<or> c = backslash))"

subsection \<open>Camera loop: one cycle\<close>

text \<open>\<open>[ "$CURRENT_HOUR" -ge 3 ] && [ "$CURRENT_HOUR" -lt 18 ]\<close>\<close>

definition window_open :: "clock \<Rightarrow> bool" where
  "window_open now =
     (case test_int (CURRENT_HOUR now) of
        None \<Rightarrow> False
      | Some h \<Rightarrow> h \<ge> 3 \<and> h < 18)"

text \<open>\<open>TIMESTAMP=$(date +"%d-%m-%Y_%H:%M:%S")\<close>, from a reading of the local clock.\<close>

definition TIMESTAMP :: "clock \<Rightarrow> string" where
  "TIMESTAMP now =
     printf_02d (day now) @ ''-'' @ printf_02d (month now) @ ''-'' @ date_Y (year now) @ ''_'' @
     printf_02d (hour now) @ '':'' @ printf_02d (minute now) @ '':'' @ printf_02d (second now)"

text \<open>A program writes the file of the given name: a new file, or new content in the old one.\<close>

definition write_file :: "string \<Rightarrow> nat \<Rightarrow> directory \<Rightarrow> directory" where
  "write_file n t d =
     (if n \<in> fname ` set d
      then map (\<lambda>e. if fname e = n then e\<lparr>mtime := t\<rparr> else e) d
      else d @ [\<lparr>fname = n, mtime = t\<rparr>])"

record cam_result =
  images :: directory
  cam_trace :: "action list"

text \<open>
  Lines 97 to 112, the gate and the capture. \<open>utc\<close> and \<open>localtime\<close> are the two clock
  readings; \<open>capture\<close> is what \<open>libcamera-still\<close> did when it ran: \<open>Some t\<close> when it
  wrote the output file at time \<open>t\<close>, \<open>None\<close> when it wrote none. The script does not
  look at its exit status.
\<close>

definition capture_step ::
  "clock \<Rightarrow> clock \<Rightarrow> nat option \<Rightarrow> directory \<Rightarrow> directory \<times> action list" where
  "capture_step utc localtime capture d =
     (if window_open utc
      then (let n = TIMESTAMP localtime @ ''.jpg''
            in ((case capture of None \<Rightarrow> d | Some t \<Rightarrow> write_file n t d),
                [LibcameraStill (IMG_DIR @ ''/'' @ n)]))
      else (d, [Echo (''Current UTC time ('' @ CURRENT_HOUR utc @
                      '') is outside the capture window. Skipping capture.'')]))"

text \<open>One pass through the body of the camera loop: gate and capture, retention pass, sleep.\<close>

definition camera_cycle ::
  "exec_limits \<Rightarrow> string \<Rightarrow> clock \<Rightarrow> clock \<Rightarrow> nat option \<Rightarrow> directory \<Rightarrow> cam_result" where
  "camera_cycle lim cwd utc localtime capture d =
     (let (d1, t1) = capture_step utc localtime capture d;
          (d2, evicted) = enforceRetention lim cwd 30 d1
      in \<lparr>images = d2,
          cam_trace = t1 @ (if IMAGE_COUNT lim d1 > 30 then [XargsRm evicted] else []) @ [Sleep 300]\<rparr>)"

text \<open>The camera loop over the inputs of successive cycles.\<close>

fun camera_loop ::
  "exec_limits \<Rightarrow> string \<Rightarrow> (clock \<times> clock \<times> nat option) list \<Rightarrow> directory \<Rightarrow> cam_result" where
  "camera_loop lim cwd [] d = \<lparr>images = d, cam_trace = []\<rparr>"
| "camera_loop lim cwd ((utc, localtime, capture) # rest) d =
     (let c = camera_cycle lim cwd utc localtime capture d;
          l = camera_loop lim cwd rest (images c)
      in \<lparr>images = images l, cam_trace = cam_trace c @ cam_trace l\<rparr>)"

subsection \<open>Example directories\<close>







subsection \<open>Service worker: offline cache\<close>

text \<open>
  A request is identified by its URL; a response carries its status and body. The
  network is a function from requests to responses, \<open>None\<close> when the fetch fails. A
  cache maps requests to responses; the cache storage holds the caches by name, in
  the order of their creation.
\<close>

type_synonym request = string

record response =
  status :: nat
  body :: string

type_synonym network = "request \<Rightarrow> response option"

type_synonym cache = "(request \<times> response) list"

type_synonym cache_storage = "(string \<times> cache) list"

definition CACHE_NAME :: string where
  "CACHE_NAME = ''weather-station-cache-v1''"

definition urlsToCache :: "request list" where
  "urlsToCache = [''/'', ''/assets/manifest.json'']"

text \<open>\<open>caches.match(request)\<close>: the first match among the caches, in creation order.\<close>

fun caches_match :: "cache_storage \<Rightarrow> request \<Rightarrow> response option" where
  "caches_match [] rq = None"
| "caches_match ((n, c) # rest) rq =
     (case map_of c rq of
        Some rs \<Rightarrow> Some rs
      | None \<Rightarrow> caches_match rest rq)"

text \<open>\<open>caches.open(name)\<close> creates the cache when there is none of that name.\<close>

definition caches_open :: "string \<Rightarrow> cache_storage \<Rightarrow> cache_storage" where
  "caches_open n cs = (if n \<in> fst ` set cs then cs else cs @ [(n, [])])"

text \<open>\<open>cache.put\<close>: the new entry replaces an entry of the same request.\<close>

definition cache_put :: "request \<Rightarrow> response \<Rightarrow> cache \<Rightarrow> cache" where
  "cache_put rq rs c = filter (\<lambda>(k, v). k \<noteq> rq) c @ [(rq, rs)]"

text \<open>
  \<open>cache.addAll(urls)\<close> fetches every URL and stores the responses; when a fetch
  fails or a response has a status outside 200..299 it rejects and stores nothing.
\<close>

definition response_ok :: "response \<Rightarrow> bool" where
  "response_ok rs = (200 \<le> status rs \<and> status rs < 300)"

fun fetch_all :: "network \<Rightarrow> request list \<Rightarrow> (request \<times> response) list option" where
  "fetch_all net [] = Some []"
| "fetch_all net (u # us) =
     (case net u of
        None \<Rightarrow> None
      | Some rs \<Rightarrow>
          if response_ok rs
          then (case fetch_all net us of None \<Rightarrow> None | Some ps \<Rightarrow> Some ((u, rs) # ps))
          else None)"

definition cache_addAll :: "network \<Rightarrow> request list \<Rightarrow> cache \<Rightarrow> cache" where
  "cache_addAll net urls c =
     (case fetch_all net urls of
        None \<Rightarrow> c
      | Some ps \<Rightarrow> foldl (\<lambda>acc (u, rs). cache_put u rs acc) c ps)"

text \<open>The events the two workers listen to.\<close>

datatype event = Install | Fetch request | Push "(string \<times> string) option" | NotificationClick

datatype effect =
    RespondFromCache response
  | RespondFromNetwork request "response option"
  | ShowNotification string string
  | OpenWindow string
  | NoEffect

text \<open>
  The \<open>install\<close> listener: \<open>caches.open(CACHE_NAME).then(cache => cache.addAll(urlsToCache))\<close>.
\<close>

definition on_install :: "network \<Rightarrow> cache_storage \<Rightarrow> cache_storage" where
  "on_install net cs =
     map (\<lambda>(n, c). if n = CACHE_NAME then (n, cache_addAll net urlsToCache c) else (n, c))
       (caches_open CACHE_NAME cs)"

text \<open>
  The \<open>fetch\<close> listener:
  \<open>caches.match(event.request).then(response => response || fetch(event.request))\<close>.
\<close>

definition on_fetch :: "network \<Rightarrow> cache_storage \<Rightarrow> request \<Rightarrow> effect" where
  "on_fetch net cs rq =
     (case caches_match cs rq of
        Some rs \<Rightarrow> RespondFromCache rs
      | None \<Rightarrow> RespondFromNetwork rq (net rq))"

text \<open>One event: the cache storage after it and what the worker did.\<close>

fun handle_event :: "network \<Rightarrow> cache_storage \<Rightarrow> event \<Rightarrow> cache_storage \<times> effect" where
  "handle_event net cs Install = (on_install net cs, NoEffect)"
| "handle_event net cs (Fetch rq) = (cs, on_fetch net cs rq)"
| "handle_event net cs (Push None) = (cs, NoEffect)"
| "handle_event net cs (Push (Some (title, text))) = (cs, ShowNotification title text)"
| "handle_event net cs NotificationClick = (cs, OpenWindow ''/'')"


section \<open>Properties\<close>

subsection \<open>Digits and numerals\<close>

lemma below_ten_cases:
  "(d::nat) < 10 \<Longrightarrow> d \<in> {0, 1, 2, 3, 4, 5, 6, 7, 8, 9}"
  by auto

lemma digit_val_digit_char: "d < 10 \<Longrightarrow> digit_val (digit_char d) = Some d"
proof -
  assume "d < 10"
  then have "d \<in> {0, 1, 2, 3, 4, 5, 6, 7, 8, 9}"
    by (rule below_ten_cases)
  then show ?thesis
    by (auto simp add: digit_val_def digit_char_def)
qed

lemma dec_one_digit: "n < 10 \<Longrightarrow> dec n = [digit_char n]"
  by (simp add: dec.simps)

lemma dec_two_digits:
  "10 \<le> n \<Longrightarrow> n < 100 \<Longrightarrow> dec n = [digit_char (n div 10), digit_char (n mod 10)]"
  by (subst dec.simps) (simp add: dec_one_digit)

lemma printf_02d_two_digits:
  "n < 100 \<Longrightarrow> printf_02d n = [digit_char (n div 10), digit_char (n mod 10)]"
  by (cases "n < 10") (simp_all add: printf_02d_def dec_one_digit dec_two_digits digit_char_def)

lemma test_int_printf_02d: "n < 100 \<Longrightarrow> test_int (printf_02d n) = Some n"
proof -
  assume n: "n < 100"
  then have "n div 10 < 10" by simp
  moreover have "n mod 10 < 10" by simp
  ultimately show ?thesis
    using n by (simp add: printf_02d_two_digits test_int_def digit_val_digit_char)
qed

text \<open>
  A two-digit field is a shell number unless it is \<open>08\<close> or \<open>09\<close>; where it is a
  number, it is the value that \<open>date\<close> printed.
\<close>

lemma bash_arith_const_two_digits:
  assumes "n < 100"
  shows "bash_arith_const (printf_02d n) =
           (if n = 8 \<or> n = 9 then Inl (ArithBase (printf_02d n)) else Inr n)"
proof (cases "n < 10")
  case True
  then have "n \<in> {0, 1, 2, 3, 4, 5, 6, 7, 8, 9}"
    by (rule below_ten_cases)
  then show ?thesis
    by (auto simp add: bash_arith_const_def printf_02d_def dec_one_digit digit_char_def
        digit_val_def)
next
  case False
  with assms have hi: "n div 10 < 10" "n div 10 \<noteq> 0" and lo: "n mod 10 < 10"
    by simp_all
  have nz: "digit_char (n div 10) \<noteq> CHR ''0''"
  proof
    assume "digit_char (n div 10) = CHR ''0''"
    then have "digit_val (digit_char (n div 10)) = digit_val (CHR ''0'')" by simp
    then have "Some (n div 10) = Some 0"
      using hi(1) by (simp add: digit_val_digit_char) (simp add: digit_val_def)
    with hi(2) show False by simp
  qed
  have "n div 10 * 10 + n mod 10 = n" by simp
  moreover from False have "n \<noteq> 8" "n \<noteq> 9" by simp_all
  ultimately show ?thesis
    using assms nz hi lo
    by (simp add: bash_arith_const_def printf_02d_two_digits digit_val_digit_char)
qed

lemma INTERVAL_NUM_readable:
  assumes "minute now < 60" "minute now \<noteq> 8" "minute now \<noteq> 9"
  shows "INTERVAL_NUM now = Inr 0"
  using assms by (simp add: INTERVAL_NUM_def CURRENT_MINUTE_def bash_arith_const_two_digits)

text \<open>
  With the divisor 65 the target minute is \<open>00\<close> for every minute of the hour that
  the shell can read.
\<close>

lemma LATEST_TIMESTAMP_readable:
  assumes "minute now < 60" "minute now \<noteq> 8" "minute now \<noteq> 9"
  shows "LATEST_TIMESTAMP now =
           Inr (CURRENT_YEAR now @ CURRENT_MONTH now @ CURRENT_DAY now @ CURRENT_HOUR now @ ''00'')"
  using assms
  by (simp add: LATEST_TIMESTAMP_def TARGET_MINUTE_def TARGET_MINUTE_NUM_def
      INTERVAL_NUM_readable printf_02d_def dec_one_digit digit_char_def)

lemma LATEST_TIMESTAMP_unreadable:
  assumes "minute now = 8 \<or> minute now = 9"
  shows "LATEST_TIMESTAMP now = Inl (ArithBase (CURRENT_MINUTE now))"
  using assms
  by (auto simp add: LATEST_TIMESTAMP_def TARGET_MINUTE_def TARGET_MINUTE_NUM_def
      INTERVAL_NUM_def CURRENT_MINUTE_def bash_arith_const_two_digits)

subsection \<open>C1: aligned acquisition index\<close>

text \<open>
  C1 (the aligned index is the clock floored to the last 15-minute boundary:
  10:07 gives 202406011000 and 10:22 gives 202406011015). The loop divides and
  multiplies the minute by 65, not by 15, so the index of 2024-06-01T10:22:00Z is
  202406011000, which is 22 minutes behind the clock, and not 202406011015. The
  reading 10:07 does give 202406011000.
\<close>

theorem C1_index_at_10_22:
  "LATEST_TIMESTAMP (clock_2024_06_01 10 22) = Inr ''202406011000''
   \<and> LATEST_TIMESTAMP (clock_2024_06_01 10 22) \<noteq> Inr ''202406011015''
   \<and> LATEST_TIMESTAMP (clock_2024_06_01 10 7) = Inr ''202406011000''"
  by code_simp

subsection \<open>The satellite cycle\<close>

lemma download_and_wait_sleeps: "sleeps (trace (download_and_wait ts r f)) = [900]"
  by (simp add: download_and_wait_def Let_def sleeps_def)

lemma download_and_wait_attempts: "curl_attempts (trace (download_and_wait ts r f)) = 1"
  by (simp add: download_and_wait_def Let_def curl_attempts_def)

lemma download_and_wait_last: "last (trace (download_and_wait ts r f)) = Sleep 900"
  by (simp add: download_and_wait_def Let_def)

lemma download_and_wait_running: "running (download_and_wait ts r f)"
  by (simp add: download_and_wait_def Let_def)

lemma download_and_wait_outputs:
  "curl_outputs (trace (download_and_wait ts r f)) = [OUTPUT_PATH]"
  by (simp add: download_and_wait_def Let_def curl_outputs_def)

text \<open>
  A cycle that starts in a minute other than 08 and 09 makes one download attempt
  and ends with the sleep of 900 seconds, whatever curl returned.
\<close>

lemma satellite_cycle_readable:
  assumes "minute now < 60" "minute now \<noteq> 8" "minute now \<noteq> 9"
  shows "curl_attempts (trace (satellite_cycle now r f)) = 1"
    and "sleeps (trace (satellite_cycle now r f)) = [900]"
    and "last (trace (satellite_cycle now r f)) = Sleep 900"
    and "running (satellite_cycle now r f)"
  using assms
  by (simp_all add: satellite_cycle_def LATEST_TIMESTAMP_readable download_and_wait_attempts
      download_and_wait_sleeps download_and_wait_last download_and_wait_running)

lemma satellite_cycle_unreadable:
  "minute now = 8 \<or> minute now = 9 \<Longrightarrow>
   satellite_cycle now r f = \<lparr>target = f, trace = [], running = False\<rparr>"
  by (simp add: satellite_cycle_def LATEST_TIMESTAMP_unreadable)

subsection \<open>C2: a download with an empty body\<close>

text \<open>
  C2 as stated (after a cycle whose fetch produced a zero-length payload, nothing has
  been written and the previous snapshot is unchanged at the target path) fails:
  curl writes to the target path itself, so the empty body replaces the previous
  snapshot, and the loop then removes the file.
\<close>

theorem C2_empty_body_counterexample:
  "after_curl (Curl 0 (Some [])) (Some [1, 2, 3]) = Some []
   \<and> target (satellite_cycle (clock_2024_06_01 10 7) (Curl 0 (Some [])) (Some [1, 2, 3])) = None
   \<and> target (satellite_cycle (clock_2024_06_01 10 7) (Curl 0 (Some [])) (Some [1, 2, 3]))
       \<noteq> Some [1, 2, 3]"
  by code_simp

text \<open>
  C2, amended: in every cycle whose download succeeds with a zero-length payload, the
  empty file that curl left at the target path is removed by the loop, so that no
  file exists at the target path after the cycle, whatever was stored there before.
\<close>

theorem C2_empty_body_removed:
  assumes "LATEST_TIMESTAMP now = Inr ts"
  shows "after_curl (Curl 0 (Some [])) f = Some []
         \<and> target (satellite_cycle now (Curl 0 (Some [])) f) = None
         \<and> Rm OUTPUT_PATH \<in> set (trace (satellite_cycle now (Curl 0 (Some [])) f))"
  using assms
  by (simp add: satellite_cycle_def download_and_wait_def Let_def after_curl_def test_s_def)

theorem C2_empty_body_removed_witness:
  "LATEST_TIMESTAMP (clock_2024_06_01 10 7) = Inr ''202406011000''
   \<and> target (satellite_cycle (clock_2024_06_01 10 7) (Curl 0 (Some [])) (Some [1, 2, 3])) = None
   \<and> Rm OUTPUT_PATH
       \<in> set (trace (satellite_cycle (clock_2024_06_01 10 7) (Curl 0 (Some [])) (Some [1, 2, 3])))"
proof -
  have ts: "LATEST_TIMESTAMP (clock_2024_06_01 10 7) = Inr ''202406011000''"
    by code_simp
  from C2_empty_body_removed [OF ts, of "Some [1, 2, 3]"] ts show ?thesis
    by simp
qed

subsection \<open>C4: how the snapshot is written\<close>

text \<open>
  C4 as stated (the payload goes to a temporary path and is renamed over the target,
  so that a reader sees no file, the old content or the complete new content) fails:
  the only write of the cycle is curl's, and its output path is the target path
  itself. When the transfer of a payload 4 5 over the old content 1 2 3 breaks
  after the first byte, curl exits with status 18 and has left the byte 4 in the
  target; the loop leaves it there.
\<close>

theorem C4_partial_content_counterexample:
  "curl_outputs (trace (satellite_cycle (clock_2024_06_01 10 7) (Curl 18 (Some [4])) (Some [1, 2, 3])))
     = [OUTPUT_PATH]
   \<and> exit_status (Curl 18 (Some [4])) \<noteq> 0
   \<and> target (satellite_cycle (clock_2024_06_01 10 7) (Curl 18 (Some [4])) (Some [1, 2, 3]))
       = Some [4]
   \<and> Some [4] \<notin> {None, Some [1, 2, 3], Some [4, 5::nat]}"
  by code_simp

text \<open>
  C4, amended: the snapshot is written by one curl whose output path is the fixed
  target path itself, with no temporary path and no rename. After a transfer that
  succeeds with a payload that is not empty the target holds the complete new
  payload; after a transfer that fails the target holds what curl left there: the
  previous file when curl did not touch it, and otherwise the part that arrived.
\<close>

theorem C4_written_in_place:
  "curl_outputs (trace (download_and_wait ts r f)) = [OUTPUT_PATH]
   \<and> (b \<noteq> [] \<longrightarrow> target (download_and_wait ts (Curl 0 (Some b)) f) = Some b)
   \<and> (exit_status r \<noteq> 0 \<longrightarrow>
        target (download_and_wait ts r f) = (case written r of None \<Rightarrow> f | Some part \<Rightarrow> Some part))"
  by (simp add: download_and_wait_outputs)
     (simp add: download_and_wait_def Let_def after_curl_def test_s_def)

theorem C4_written_in_place_witness:
  "curl_outputs (trace (download_and_wait ''202406011000'' (Curl 18 (Some [4])) (Some [1, 2, 3])))
     = [OUTPUT_PATH]
   \<and> target (download_and_wait ''202406011000'' (Curl 0 (Some [4, 5])) (Some [1, 2, 3]))
       = Some [4, 5]
   \<and> target (download_and_wait ''202406011000'' (Curl 18 (Some [4])) (Some [1, 2, 3])) = Some [4]
   \<and> target (download_and_wait ''202406011000'' (Curl 22 None) (Some [1, 2, 3])) = Some [1, 2, 3]"
  using
    C4_written_in_place [of "''202406011000''" "Curl 18 (Some [4])" "Some [1, 2, 3]" "[4, 5]"]
    C4_written_in_place [of "''202406011000''" "Curl 22 None" "Some [1, 2, 3]" "[4, 5]"]
  by simp

subsection \<open>C7: the sleep at the end of a cycle\<close>

text \<open>
  C7 (every cycle ends with the sleep of the fixed interval, whatever its outcome).
  A satellite cycle that starts in minute 08 of an hour reads \<open>CURRENT_MINUTE=08\<close>; the
  arithmetic expansion of line 46 fails on it and the shell leaves the loop, so the
  cycle has no sleep and the next reading is never taken.
\<close>

theorem C7_no_sleep_at_minute_08:
  "satellite_cycle (clock_2024_06_01 10 8) r f = \<lparr>target = f, trace = [], running = False\<rparr>
   \<and> sleeps (trace (satellite_cycle (clock_2024_06_01 10 8) r f)) = []
   \<and> sleeps (trace (satellite_loop [(clock_2024_06_01 10 8, r), (clock_2024_06_01 10 23, r')] f)) = []"
  by (simp add: satellite_cycle_unreadable clock_2024_06_01_def sleeps_def)

subsection \<open>C8: download attempts of a cycle\<close>

text \<open>
  C8 (exactly one retrieval attempt in every cycle, recovery in the next cycle). The
  cycle that starts in minute 08 leaves the loop before curl is reached: it makes no
  attempt, and no later cycle makes one.
\<close>

theorem C8_no_attempt_at_minute_08:
  "curl_attempts (trace (satellite_cycle (clock_2024_06_01 10 8) r f)) = 0
   \<and> curl_attempts
       (trace (satellite_loop [(clock_2024_06_01 10 8, r), (clock_2024_06_01 10 23, r')] f)) = 0"
  by (simp add: satellite_cycle_unreadable clock_2024_06_01_def curl_attempts_def)

subsection \<open>C5: the capture window\<close>

text \<open>
  C5: the window gate is open exactly when the UTC hour is at least 3 and less than
  18, and it depends on the clock reading through its hour alone; hours 2 and 18 are
  closed, hours 3 and 17 are open.
\<close>

theorem C5_window_gate:
  "(hour now < 24 \<longrightarrow> (window_open now \<longleftrightarrow> 3 \<le> hour now \<and> hour now < 18))
   \<and> (\<forall>other. hour other = hour now \<longrightarrow> window_open other = window_open now)"
  by (simp add: window_open_def CURRENT_HOUR_def test_int_printf_02d)

theorem C5_window_gate_witness:
  "\<not> window_open (clock_2024_06_01 2 59)
   \<and> window_open (clock_2024_06_01 3 0)
   \<and> window_open (clock_2024_06_01 17 59)
   \<and> \<not> window_open (clock_2024_06_01 18 0)
   \<and> window_open (clock_2024_06_01 3 30) = window_open (clock_2024_06_01 3 0)"
  using C5_window_gate [of "clock_2024_06_01 2 59"] C5_window_gate [of "clock_2024_06_01 3 0"]
    C5_window_gate [of "clock_2024_06_01 17 59"] C5_window_gate [of "clock_2024_06_01 18 0"]
  by (simp add: clock_2024_06_01_def)

subsection \<open>C10: the offline cache\<close>

text \<open>
  C10: the fetch listener answers from the cache when the cache storage has a match
  for the request, without a network request and whatever the network would return,
  and passes the request to the network otherwise; no event other than install
  changes the cache storage.
\<close>

theorem C10_cache_first:
  "(caches_match cs rq = Some rs \<longrightarrow>
      on_fetch net cs rq = RespondFromCache rs \<and> on_fetch net' cs rq = on_fetch net cs rq)
   \<and> (caches_match cs rq = None \<longrightarrow> on_fetch net cs rq = RespondFromNetwork rq (net rq))
   \<and> handle_event net cs (Fetch rq) = (cs, on_fetch net cs rq)
   \<and> (e \<noteq> Install \<longrightarrow> fst (handle_event net cs e) = cs)"
proof -
  have "e \<noteq> Install \<longrightarrow> fst (handle_event net cs e) = cs"
    by (cases "(net, cs, e)" rule: handle_event.cases) auto
  then show ?thesis
    by (simp add: on_fetch_def)
qed

theorem C10_cache_first_witness:
  "on_fetch (\<lambda>u. None) [(CACHE_NAME, [(''/'', \<lparr>status = 200, body = ''home''\<rparr>)])] ''/''
     = RespondFromCache \<lparr>status = 200, body = ''home''\<rparr>
   \<and> on_fetch (\<lambda>u. None) [(CACHE_NAME, [(''/'', \<lparr>status = 200, body = ''home''\<rparr>)])] ''/live''
     = RespondFromNetwork ''/live'' None
   \<and> fst (handle_event (\<lambda>u. None) [(CACHE_NAME, [(''/'', \<lparr>status = 200, body = ''home''\<rparr>)])]
        (Fetch ''/live''))
     = [(CACHE_NAME, [(''/'', \<lparr>status = 200, body = ''home''\<rparr>)])]
   \<and> fst (handle_event (\<lambda>u. Some \<lparr>status = 200, body = u\<rparr>) [] Install)
     = [(CACHE_NAME, [(''/'', \<lparr>status = 200, body = ''/''\<rparr>),
                      (''/assets/manifest.json'', \<lparr>status = 200, body = ''/assets/manifest.json''\<rparr>)])]"
  using
    C10_cache_first [where cs = "[(CACHE_NAME, [(''/'', \<lparr>status = 200, body = ''home''\<rparr>)])]"
      and rq = "''/''" and rs = "\<lparr>status = 200, body = ''home''\<rparr>" and net = "\<lambda>u. None"
      and net' = "\<lambda>u. None" and e = "Fetch ''/live''"]
    C10_cache_first [where cs = "[(CACHE_NAME, [(''/'', \<lparr>status = 200, body = ''home''\<rparr>)])]"
      and rq = "''/live''" and rs = "\<lparr>status = 200, body = ''home''\<rparr>" and net = "\<lambda>u. None"
      and net' = "\<lambda>u. None" and e = "Fetch ''/live''"]
  by (simp add: on_install_def caches_open_def cache_addAll_def cache_put_def urlsToCache_def
      response_ok_def)

subsection \<open>The retention pipeline on plain names\<close>

























text \<open>What holds of a directory holds of the directory with some files removed.\<close>

lemma plain_names_filter:
  "\<forall>e \<in> set d. jpg_name (fname e) \<longrightarrow> plain_name (fname e) \<Longrightarrow>
   \<forall>e \<in> set (filter P d). jpg_name (fname e) \<longrightarrow> plain_name (fname e)"
  by simp










subsection \<open>The names the camera loop writes\<close>



lemma plain_name_Cons: "plain_name (c # b) \<longleftrightarrow> plain_name [c] \<and> plain_name b"
  by (auto simp add: plain_name_def)











lemma sleeps_camera_cycle:
  "sleeps (cam_trace (camera_cycle lim cwd utc localtime capture d)) = [300]"
  by (simp add: camera_cycle_def capture_step_def Let_def sleeps_def split: prod.splits)

lemma last_camera_cycle:
  "last (cam_trace (camera_cycle lim cwd utc localtime capture d)) = Sleep 300"
  by (simp add: camera_cycle_def Let_def split: prod.splits)

text \<open>The camera loop sleeps 300 seconds once in every cycle, whatever the cycle did.\<close>

lemma sleeps_append: "sleeps (as @ bs) = sleeps as @ sleeps bs"
  by (simp add: sleeps_def)

lemma sleeps_camera_loop:
  "sleeps (cam_trace (camera_loop lim cwd inputs d)) = replicate (length inputs) 300"
proof (induction inputs arbitrary: d)
  case Nil
  then show ?case by (simp add: sleeps_def)
next
  case (Cons x inputs)
  obtain utc localtime capture where x: "x = (utc, localtime, capture)"
    by (cases x)
  show ?case
    unfolding x by (simp add: Let_def sleeps_append sleeps_camera_cycle Cons.IH)
qed

text \<open>
  For file names without a slash, which is every file name, the grep pattern
  \<open>/THUNDER\<close> selects the files whose name starts with \<open>THUNDER\<close>.
\<close>

lemma no_slash_not_sublist:
  assumes "CHR ''/'' \<notin> set n"
  shows "\<not> sublist (CHR ''/'' # p) n"
proof
  assume "sublist (CHR ''/'' # p) n"
  then have "set (CHR ''/'' # p) \<subseteq> set n"
    by (rule set_mono_sublist)
  with assms show False by simp
qed

lemma pinned_iff_prefix:
  assumes "CHR ''/'' \<notin> set (fname e)"
  shows "pinned e \<longleftrightarrow> prefix ''THUNDER'' (fname e)"
  using no_slash_not_sublist [OF assms, of "''THUNDER''"]
  by (simp add: pinned_def path_of_def IMG_DIR_def sublist_code)

subsection \<open>C3: what a retention pass leaves\<close>




subsection \<open>C6: a second retention pass\<close>




subsection \<open>C9: the retention pass of every camera cycle\<close>




end
